theory Spec2Isabelle
  imports Main "HOL-Library.Word" "HOL-Library.Sublist"
begin

section \<open>JavaScript strings\<close>

text \<open>
  A JavaScript string is a sequence of UTF-16 code units; \<open>length\<close>, \<open>split\<close> and
  \<open>includes\<close> all work on code units. String literals of the source are written
  \<open>lit ''...''\<close>.
\<close>

type_synonym js_string = "16 word list"

definition lit :: "string \<Rightarrow> js_string" where
  "lit s = map (\<lambda>c. of_nat (of_char c)) s"

text \<open>\<open>s.startsWith(t)\<close> and \<open>s.includes(t)\<close>: \<open>t\<close> occurs at the front of, or somewhere in, \<open>s\<close>.\<close>

fun startsWith :: "js_string \<Rightarrow> js_string \<Rightarrow> bool" where
  "startsWith s [] = True"
| "startsWith [] (c # t) = False"
| "startsWith (d # s) (c # t) = (d = c \<and> startsWith s t)"

fun includes_str :: "js_string \<Rightarrow> js_string \<Rightarrow> bool" where
  "includes_str [] t = (t = [])"
| "includes_str (c # s) t = (startsWith (c # s) t \<or> includes_str s t)"

text \<open>
  \<open>s.split(sep)\<close> for a separator of one code unit: the pieces between the occurrences
  of \<open>sep\<close>; the empty string gives one empty piece.
\<close>

fun split_str :: "16 word \<Rightarrow> js_string \<Rightarrow> js_string list" where
  "split_str sep [] = [[]]"
| "split_str sep (c # cs) =
     (if c = sep then [] # split_str sep cs
      else (case split_str sep cs of
              [] \<Rightarrow> [[c]]
            | w # ws \<Rightarrow> (c # w) # ws))"

text \<open>\<open>xs[i]\<close> on an array: \<open>undefined\<close> (here \<open>None\<close>) out of range.\<close>

fun at_index :: "'a list \<Rightarrow> nat \<Rightarrow> 'a option" where
  "at_index [] i = None"
| "at_index (x # xs) 0 = Some x"
| "at_index (x # xs) (Suc i) = at_index xs i"

text \<open>
  The part of a header after its first space, up to the next space: the words in which
  the specification describes the token. \<open>None\<close> when the header has no space.
\<close>

definition part_after_first_space :: "js_string \<Rightarrow> js_string option" where
  "part_after_first_space s =
     (if 32 \<in> set s
      then Some (takeWhile (\<lambda>c. c \<noteq> 32) (tl (dropWhile (\<lambda>c. c \<noteq> 32) s)))
      else None)"

section \<open>JSON request bodies and the validation schemas\<close>

text \<open>
  \<open>express.json()\<close> hands the handlers a parsed JSON value. The handlers and schemas of
  this repository only look at the type of a value and at the content of strings.
\<close>

datatype json =
    JNull
  | JBool bool
  | JNum int
  | JStr js_string
  | JArr "json list"
  | JObj "(js_string \<times> json) list"

text \<open>
  A validation issue as the schema library reports it: the path of the offending field
  (empty for the body itself) and the kind of failure. \<open>too_small p n\<close> is the issue of
  \<open>z.string().min(n, message)\<close>.
\<close>

datatype zod_issue =
    invalid_type "js_string list"
  | too_small "js_string list" nat

text \<open>\<open>z.string()\<close>, \<open>z.string().min(n, msg)\<close> and \<open>z.string().nullable().optional()\<close>
  applied to the value found under a key (\<open>None\<close>: the key is missing).\<close>

fun z_string :: "js_string list \<Rightarrow> json option \<Rightarrow> zod_issue list + js_string" where
  "z_string p (Some (JStr s)) = Inr s"
| "z_string p v = Inl [invalid_type p]"

fun z_string_min :: "nat \<Rightarrow> js_string list \<Rightarrow> json option \<Rightarrow> zod_issue list + js_string" where
  "z_string_min n p (Some (JStr s)) = (if length s < n then Inl [too_small p n] else Inr s)"
| "z_string_min n p v = Inl [invalid_type p]"

fun z_string_nullish :: "js_string list \<Rightarrow> json option \<Rightarrow> zod_issue list + js_string option" where
  "z_string_nullish p None = Inr None"
| "z_string_nullish p (Some JNull) = Inr None"
| "z_string_nullish p (Some (JStr s)) = Inr (Some s)"
| "z_string_nullish p v = Inl [invalid_type p]"

fun issues :: "zod_issue list + 'a \<Rightarrow> zod_issue list" where
  "issues (Inl es) = es"
| "issues (Inr v) = []"

text \<open>
  \<open>insertUserSchema = createInsertSchema(users).pick({username, email}).extend({password:
  z.string().min(6, ...)})\<close>: \<open>username\<close> and \<open>email\<close> are \<open>text(...).notNull()\<close> columns,
  hence required strings. An object schema reports the issues of all its fields and
  drops the keys it does not declare.
\<close>

record insert_user =
  username :: js_string
  email :: js_string
  password :: js_string

definition insertUserSchema_safeParse :: "json \<Rightarrow> zod_issue list + insert_user" where
  "insertUserSchema_safeParse b =
     (case b of
        JObj kvs \<Rightarrow>
          (let u = z_string [lit ''username''] (map_of kvs (lit ''username''));
               e = z_string [lit ''email''] (map_of kvs (lit ''email''));
               p = z_string_min 6 [lit ''password''] (map_of kvs (lit ''password''))
           in (case (u, e, p) of
                 (Inr u', Inr e', Inr p') \<Rightarrow>
                    Inr \<lparr>username = u', email = e', password = p'\<rparr>
               | _ \<Rightarrow> Inl (issues u @ issues e @ issues p)))
      | _ \<Rightarrow> Inl [invalid_type []])"

text \<open>
  \<open>insertAnimalSchema = createInsertSchema(animals).omit({id, userId, createdAt,
  updatedAt})\<close>: \<open>codigoUnico\<close> and \<open>sexo\<close> are not-null text columns (required strings);
  \<open>nombre\<close>, \<open>raza\<close> and \<open>fechaNacimiento\<close> are nullable columns (a string, \<open>null\<close>, or
  missing; the last two are both stored as NULL). \<open>userId\<close> is not a key of the schema.
\<close>

record insert_animal =
  codigoUnico :: js_string
  nombre :: "js_string option"
  raza :: "js_string option"
  sexo :: js_string
  fechaNacimiento :: "js_string option"

definition insertAnimalSchema_safeParse :: "json \<Rightarrow> zod_issue list + insert_animal" where
  "insertAnimalSchema_safeParse b =
     (case b of
        JObj kvs \<Rightarrow>
          (let c = z_string [lit ''codigoUnico''] (map_of kvs (lit ''codigoUnico''));
               n = z_string_nullish [lit ''nombre''] (map_of kvs (lit ''nombre''));
               r = z_string_nullish [lit ''raza''] (map_of kvs (lit ''raza''));
               s = z_string [lit ''sexo''] (map_of kvs (lit ''sexo''));
               f = z_string_nullish [lit ''fechaNacimiento'']
                     (map_of kvs (lit ''fechaNacimiento''))
           in (case (c, n, r, s, f) of
                 (Inr c', Inr n', Inr r', Inr s', Inr f') \<Rightarrow>
                    Inr \<lparr>codigoUnico = c', nombre = n', raza = r', sexo = s',
                         fechaNacimiento = f'\<rparr>
               | _ \<Rightarrow> Inl (issues c @ issues n @ issues r @ issues s @ issues f)))
      | _ \<Rightarrow> Inl [invalid_type []])"

section \<open>The stored state\<close>

text \<open>Rows of the tables \<open>users\<close> and \<open>animals\<close>, column by column as the schema declares them.\<close>

record user_row =
  users_id :: js_string
  users_username :: js_string
  users_passwordHash :: js_string
  users_email :: js_string
  users_nombre :: "js_string option"
  users_telefono :: "js_string option"
  users_createdAt :: "nat option"
  users_updatedAt :: "nat option"

record animal_row =
  animals_id :: nat
  animals_userId :: js_string
  animals_codigoUnico :: js_string
  animals_nombre :: "js_string option"
  animals_raza :: "js_string option"
  animals_sexo :: js_string
  animals_fechaNacimiento :: "js_string option"
  animals_createdAt :: "nat option"
  animals_updatedAt :: "nat option"

text \<open>
  The database: the rows of the two tables the handlers touch, in the order a
  \<open>select\<close> returns them, and the sequence behind the \<open>serial\<close> column \<open>animals.id\<close>.
\<close>

record database =
  users_rows :: "user_row list"
  animals_rows :: "animal_row list"
  animals_id_seq :: nat

text \<open>The four queries the handlers issue.\<close>

datatype db_op =
    SelectUsersByUsername js_string
  | InsertUser js_string js_string js_string
  | SelectAnimalsByUserId js_string
  | InsertAnimal insert_animal js_string

section \<open>The environment of a request\<close>

text \<open>
  The token payload that \<open>POST /api/login\<close> signs and that the \<open>Request\<close> interface
  declares for \<open>req.user\<close>.
\<close>

record jwt_payload =
  payload_id :: js_string
  payload_username :: js_string

text \<open>
  Everything a handler uses that is not code of this repository is a field of the
  environment: the libraries \<open>jsonwebtoken\<close> and \<open>bcryptjs\<close>, the process environment,
  and what the database server decides on its own during this request (the uuid of
  \<open>gen_random_uuid()\<close>, the time of \<open>defaultNow()\<close>, and whether the driver throws for a
  query for a reason other than a declared constraint: a lost connection, a malformed
  parameter). \<open>jwt_sign\<close> throws (\<open>Inl\<close> the message) or returns the token; \<open>jwt_verify\<close>
  yields the decoded payload or an error (\<open>None\<close>).
\<close>

record env =
  JWT_SECRET :: "js_string option"
  jwt_sign :: "jwt_payload \<Rightarrow> js_string option \<Rightarrow> js_string \<Rightarrow> js_string + js_string"
  jwt_verify :: "js_string \<Rightarrow> js_string option \<Rightarrow> jwt_payload option"
  bcrypt_hash :: "js_string \<Rightarrow> nat \<Rightarrow> js_string"
  bcrypt_compare :: "js_string \<Rightarrow> js_string \<Rightarrow> bool"
  driver_fault :: "db_op \<Rightarrow> js_string option"
  gen_random_uuid :: js_string
  now :: nat

section \<open>Queries\<close>

text \<open>The messages of the database server for a violated unique and foreign-key constraint.\<close>

definition unique_violation :: "string \<Rightarrow> js_string" where
  "unique_violation c =
     lit ''duplicate key value violates unique constraint '' @ [34] @ lit c @ [34]"

definition foreign_key_violation :: "string \<Rightarrow> string \<Rightarrow> js_string" where
  "foreign_key_violation t c =
     lit ''insert or update on table '' @ [34] @ lit t @ [34]
       @ lit '' violates foreign key constraint '' @ [34] @ lit c @ [34]"

text \<open>\<open>db.select().from(users).where(eq(users.username, u))\<close>\<close>

definition select_users :: "env \<Rightarrow> database \<Rightarrow> js_string \<Rightarrow> js_string + user_row list" where
  "select_users e db u =
     (case driver_fault e (SelectUsersByUsername u) of
        Some m \<Rightarrow> Inl m
      | None \<Rightarrow> Inr (filter (\<lambda>r. users_username r = u) (users_rows db)))"

text \<open>
  \<open>db.insert(users).values({username, email, passwordHash}).returning()\<close>: the columns not
  given take their defaults; \<open>username\<close> is unique and \<open>id\<close> is the primary key.
\<close>

definition new_user_row :: "env \<Rightarrow> js_string \<Rightarrow> js_string \<Rightarrow> js_string \<Rightarrow> user_row" where
  "new_user_row e u em h =
     \<lparr>users_id = gen_random_uuid e, users_username = u, users_passwordHash = h,
      users_email = em, users_nombre = None, users_telefono = None,
      users_createdAt = Some (now e), users_updatedAt = Some (now e)\<rparr>"

definition insert_users ::
  "env \<Rightarrow> database \<Rightarrow> js_string \<Rightarrow> js_string \<Rightarrow> js_string \<Rightarrow> (js_string + user_row) \<times> database"
where
  "insert_users e db u em h =
     (case driver_fault e (InsertUser u em h) of
        Some m \<Rightarrow> (Inl m, db)
      | None \<Rightarrow>
          if u \<in> set (map users_username (users_rows db))
          then (Inl (unique_violation ''users_username_unique''), db)
          else if gen_random_uuid e \<in> set (map users_id (users_rows db))
          then (Inl (unique_violation ''users_pkey''), db)
          else (Inr (new_user_row e u em h),
                db\<lparr>users_rows := users_rows db @ [new_user_row e u em h]\<rparr>))"

text \<open>\<open>db.select().from(animals).where(eq(animals.userId, uid))\<close>\<close>

definition select_animals :: "env \<Rightarrow> database \<Rightarrow> js_string \<Rightarrow> js_string + animal_row list" where
  "select_animals e db uid =
     (case driver_fault e (SelectAnimalsByUserId uid) of
        Some m \<Rightarrow> Inl m
      | None \<Rightarrow> Inr (filter (\<lambda>r. animals_userId r = uid) (animals_rows db)))"

text \<open>
  \<open>db.insert(animals).values(newAnimal).returning()\<close>: \<open>id\<close> is drawn from the sequence
  (which advances even when the insert then fails), \<open>codigoUnico\<close> is unique and \<open>userId\<close>
  references \<open>users.id\<close>.
\<close>

definition new_animal_row :: "env \<Rightarrow> database \<Rightarrow> insert_animal \<Rightarrow> js_string \<Rightarrow> animal_row" where
  "new_animal_row e db a uid =
     \<lparr>animals_id = animals_id_seq db, animals_userId = uid,
      animals_codigoUnico = codigoUnico a, animals_nombre = nombre a,
      animals_raza = raza a, animals_sexo = sexo a,
      animals_fechaNacimiento = fechaNacimiento a,
      animals_createdAt = Some (now e), animals_updatedAt = Some (now e)\<rparr>"

definition insert_animals ::
  "env \<Rightarrow> database \<Rightarrow> insert_animal \<Rightarrow> js_string \<Rightarrow> (js_string + animal_row) \<times> database"
where
  "insert_animals e db a uid =
     (case driver_fault e (InsertAnimal a uid) of
        Some m \<Rightarrow> (Inl m, db)
      | None \<Rightarrow>
          (let db' = db\<lparr>animals_id_seq := Suc (animals_id_seq db)\<rparr> in
           if animals_id_seq db \<in> set (map animals_id (animals_rows db))
           then (Inl (unique_violation ''animals_pkey''), db')
           else if codigoUnico a \<in> set (map animals_codigoUnico (animals_rows db))
           then (Inl (unique_violation ''animals_codigo_unico_unique''), db')
           else if uid \<notin> set (map users_id (users_rows db))
           then (Inl (foreign_key_violation ''animals'' ''animals_user_id_users_id_fk''), db')
           else (Inr (new_animal_row e db a uid),
                 db'\<lparr>animals_rows := animals_rows db @ [new_animal_row e db a uid]\<rparr>)))"

section \<open>Requests, responses and the handlers\<close>

text \<open>
  A request: the \<open>Authorization\<close> header, the parsed body, and \<open>req.user\<close>, which only the
  middleware sets.
\<close>

record 'b request =
  authorization :: "js_string option"
  body :: 'b
  user :: "jwt_payload option"

text \<open>
  The body of \<open>POST /api/login\<close> as the pages of this repository send it: each of
  \<open>username\<close> and \<open>password\<close> is a string or missing.
\<close>

record login_body =
  login_username :: "js_string option"
  login_password :: "js_string option"

text \<open>The JSON payloads the handlers send, one constructor for each shape.\<close>

datatype error_message =
    Token_requerido
  | Token_invalido
  | Usuario_y_contrasena_requeridos
  | Credenciales_invalidas
  | El_nombre_de_usuario_o_email_ya_existe
  | Usuario_no_autenticado
  | err_message js_string

datatype payload =
    error error_message
  | errors "zod_issue list"
  | token js_string
  | Usuario_creado user_row
  | Animal_creado_exitosamente animal_row
  | rows "animal_row list"

text \<open>
  What a handler does: the status and payload it sends, the database it leaves, and
  the queries it issued, in order.
\<close>

record outcome =
  status :: nat
  sent :: payload
  store :: database
  db_ops :: "db_op list"

definition respond :: "nat \<Rightarrow> payload \<Rightarrow> database \<Rightarrow> db_op list \<Rightarrow> outcome" where
  "respond st p db ops = \<lparr>status = st, sent = p, store = db, db_ops = ops\<rparr>"

text \<open>The middleware: \<open>req.headers["authorization"]?.split(" ")[1]\<close>, then \<open>jwt.verify\<close>.\<close>

definition bearer_token :: "'b request \<Rightarrow> js_string option" where
  "bearer_token req =
     (case authorization req of
        None \<Rightarrow> None
      | Some h \<Rightarrow> at_index (split_str 32 h) 1)"

definition authenticateToken ::
  "env \<Rightarrow> 'b request \<Rightarrow> database \<Rightarrow> ('b request \<Rightarrow> database \<Rightarrow> outcome) \<Rightarrow> outcome"
where
  "authenticateToken e req db next =
     (case bearer_token req of
        None \<Rightarrow> respond 401 (error Token_requerido) db []
      | Some t \<Rightarrow>
          if t = [] then respond 401 (error Token_requerido) db []
          else (case jwt_verify e t (JWT_SECRET e) of
                  None \<Rightarrow> respond 403 (error Token_invalido) db []
                | Some u \<Rightarrow> next (req\<lparr>user := Some u\<rparr>) db))"

text \<open>\<open>POST /api/signup\<close>\<close>

definition duplicate_key_phrase :: js_string where
  "duplicate_key_phrase = lit ''duplicate key value violates unique constraint''"

definition signup :: "env \<Rightarrow> json request \<Rightarrow> database \<Rightarrow> outcome" where
  "signup e req db =
     (case insertUserSchema_safeParse (body req) of
        Inl errs \<Rightarrow> respond 400 (errors errs) db []
      | Inr d \<Rightarrow>
          (let hashedPassword = bcrypt_hash e (password d) 10;
               q = InsertUser (username d) (email d) hashedPassword
           in (case insert_users e db (username d) (email d) hashedPassword of
                 (Inr r, db') \<Rightarrow> respond 201 (Usuario_creado r) db' [q]
               | (Inl m, db') \<Rightarrow>
                   if includes_str m duplicate_key_phrase
                   then respond 409 (error El_nombre_de_usuario_o_email_ya_existe) db' [q]
                   else respond 500 (error (err_message m)) db' [q])))"

text \<open>\<open>POST /api/login\<close>; \<open>!x\<close> holds of a missing and of an empty string.\<close>

definition falsy :: "js_string option \<Rightarrow> bool" where
  "falsy x = (case x of None \<Rightarrow> True | Some s \<Rightarrow> s = [])"

definition login :: "env \<Rightarrow> login_body request \<Rightarrow> database \<Rightarrow> outcome" where
  "login e req db =
     (case (login_username (body req), login_password (body req)) of
        (Some u, Some p) \<Rightarrow>
          if falsy (Some u) \<or> falsy (Some p)
          then respond 400 (error Usuario_y_contrasena_requeridos) db []
          else (case select_users e db u of
                  Inl m \<Rightarrow> respond 500 (error (err_message m)) db [SelectUsersByUsername u]
                | Inr [] \<Rightarrow>
                    respond 401 (error Credenciales_invalidas) db [SelectUsersByUsername u]
                | Inr (usr # _) \<Rightarrow>
                    if \<not> bcrypt_compare e p (users_passwordHash usr)
                    then respond 401 (error Credenciales_invalidas) db
                           [SelectUsersByUsername u]
                    else (case jwt_sign e
                                 \<lparr>payload_id = users_id usr,
                                  payload_username = users_username usr\<rparr>
                                 (JWT_SECRET e) (lit ''1h'') of
                            Inl m \<Rightarrow>
                              respond 500 (error (err_message m)) db
                                [SelectUsersByUsername u]
                          | Inr t \<Rightarrow> respond 200 (token t) db [SelectUsersByUsername u]))
      | _ \<Rightarrow> respond 400 (error Usuario_y_contrasena_requeridos) db [])"

text \<open>The route body of \<open>GET /api/animals\<close>, and the route behind the middleware.\<close>

definition get_animals_body :: "env \<Rightarrow> 'b request \<Rightarrow> database \<Rightarrow> outcome" where
  "get_animals_body e req db =
     (case user req of
        None \<Rightarrow> respond 401 (error Usuario_no_autenticado) db []
      | Some u \<Rightarrow>
          if payload_id u = [] then respond 401 (error Usuario_no_autenticado) db []
          else (case select_animals e db (payload_id u) of
                  Inl m \<Rightarrow>
                    respond 500 (error (err_message m)) db
                      [SelectAnimalsByUserId (payload_id u)]
                | Inr rs \<Rightarrow> respond 200 (rows rs) db [SelectAnimalsByUserId (payload_id u)]))"

definition get_animals :: "env \<Rightarrow> 'b request \<Rightarrow> database \<Rightarrow> outcome" where
  "get_animals e req db = authenticateToken e req db (get_animals_body e)"

text \<open>The route body of \<open>POST /api/animals\<close>, and the route behind the middleware.\<close>

definition post_animals_body :: "env \<Rightarrow> json request \<Rightarrow> database \<Rightarrow> outcome" where
  "post_animals_body e req db =
     (case user req of
        None \<Rightarrow> respond 401 (error Usuario_no_autenticado) db []
      | Some u \<Rightarrow>
          if payload_id u = [] then respond 401 (error Usuario_no_autenticado) db []
          else (case insertAnimalSchema_safeParse (body req) of
                  Inl errs \<Rightarrow> respond 400 (errors errs) db []
                | Inr a \<Rightarrow>
                    (case insert_animals e db a (payload_id u) of
                       (Inr r, db') \<Rightarrow>
                         respond 201 (Animal_creado_exitosamente r) db'
                           [InsertAnimal a (payload_id u)]
                     | (Inl m, db') \<Rightarrow>
                         respond 500 (error (err_message m)) db'
                           [InsertAnimal a (payload_id u)])))"

definition post_animals :: "env \<Rightarrow> json request \<Rightarrow> database \<Rightarrow> outcome" where
  "post_animals e req db = authenticateToken e req db (post_animals_body e)"

section \<open>The schema declaration\<close>

text \<open>
  The \<open>pgTable\<close> declarations as data: every column with its database name, its type
  and the modifiers chained onto it in the source. \<open>references t k a\<close> is
  \<open>.references(() => t.k, { onDelete: a })\<close>.
\<close>

datatype col_type = pg_uuid | pg_serial | pg_text | pg_integer | pg_date | pg_timestamp

datatype on_delete = cascade | no_action

record column =
  col_name :: string
  col_type :: col_type
  not_null :: bool
  is_unique :: bool
  primary_key :: bool
  has_default :: bool
  fk :: "(string \<times> string \<times> on_delete) option"

record pgTable =
  table_name :: string
  columns :: "column list"

definition column :: "col_type \<Rightarrow> string \<Rightarrow> column" where
  "column ty n =
     \<lparr>col_name = n, col_type = ty, not_null = False, is_unique = False,
      primary_key = False, has_default = False, fk = None\<rparr>"

definition notNull :: "column \<Rightarrow> column" where
  "notNull c = c\<lparr>not_null := True\<rparr>"

definition unique :: "column \<Rightarrow> column" where
  "unique c = c\<lparr>is_unique := True\<rparr>"

definition primaryKey :: "column \<Rightarrow> column" where
  "primaryKey c = c\<lparr>primary_key := True, not_null := True\<rparr>"

definition default_sql :: "column \<Rightarrow> column" where
  "default_sql c = c\<lparr>has_default := True\<rparr>"

definition defaultNow :: "column \<Rightarrow> column" where
  "defaultNow c = c\<lparr>has_default := True\<rparr>"

definition references :: "string \<Rightarrow> string \<Rightarrow> on_delete \<Rightarrow> column \<Rightarrow> column" where
  "references t k a c = c\<lparr>fk := Some (t, k, a)\<rparr>"

definition serial_id :: column where
  "serial_id = primaryKey (default_sql (column pg_serial ''id''))"

definition animalId :: column where
  "animalId = references ''animals'' ''id'' cascade (notNull (column pg_integer ''animal_id''))"

definition userId :: column where
  "userId = references ''users'' ''id'' cascade (notNull (column pg_uuid ''user_id''))"

definition createdAt :: column where
  "createdAt = defaultNow (column pg_timestamp ''created_at'')"

definition updatedAt :: column where
  "updatedAt = defaultNow (column pg_timestamp ''updated_at'')"

definition users :: pgTable where
  "users = \<lparr>table_name = ''users'', columns =
     [default_sql (primaryKey (column pg_uuid ''id'')),
      unique (notNull (column pg_text ''username'')),
      notNull (column pg_text ''password_hash''),
      notNull (column pg_text ''email''),
      column pg_text ''nombre'',
      column pg_text ''telefono'',
      createdAt, updatedAt]\<rparr>"

definition animals :: pgTable where
  "animals = \<lparr>table_name = ''animals'', columns =
     [serial_id, userId,
      unique (notNull (column pg_text ''codigo_unico'')),
      column pg_text ''nombre'',
      column pg_text ''raza'',
      notNull (column pg_text ''sexo''),
      column pg_date ''fecha_nacimiento'',
      createdAt, updatedAt]\<rparr>"

definition weightRecords :: pgTable where
  "weightRecords = \<lparr>table_name = ''weight_records'', columns =
     [serial_id, animalId, userId,
      notNull (column pg_integer ''peso''),
      notNull (column pg_date ''fecha''),
      createdAt, updatedAt]\<rparr>"

definition healthRecords :: pgTable where
  "healthRecords = \<lparr>table_name = ''health_records'', columns =
     [serial_id, animalId, userId,
      notNull (column pg_date ''fecha_diagnostico''),
      notNull (column pg_text ''diagnostico''),
      column pg_text ''tratamiento'',
      column pg_text ''notas_veterinario'',
      createdAt, updatedAt]\<rparr>"

definition vaccinations :: pgTable where
  "vaccinations = \<lparr>table_name = ''vaccinations'', columns =
     [serial_id, animalId, userId,
      notNull (column pg_text ''tipo_vacuna''),
      notNull (column pg_date ''fecha_aplicacion''),
      column pg_text ''reacciones_adversas'',
      createdAt, updatedAt]\<rparr>"

definition pestControl :: pgTable where
  "pestControl = \<lparr>table_name = ''pest_control'', columns =
     [serial_id, animalId, userId,
      notNull (column pg_text ''tipo_tratamiento''),
      notNull (column pg_date ''fecha_aplicacion''),
      column pg_text ''resultados'',
      createdAt, updatedAt]\<rparr>"

definition reproduction :: pgTable where
  "reproduction = \<lparr>table_name = ''reproduction'', columns =
     [serial_id, animalId, userId,
      notNull (column pg_text ''tipo_evento''),
      notNull (column pg_date ''fecha_evento''),
      column pg_text ''observaciones'',
      createdAt, updatedAt]\<rparr>"

definition feeding :: pgTable where
  "feeding = \<lparr>table_name = ''feeding'', columns =
     [serial_id, animalId, userId,
      notNull (column pg_text ''tipo_alimento''),
      notNull (column pg_integer ''cantidad''),
      notNull (column pg_date ''fecha''),
      column pg_text ''observaciones'',
      createdAt, updatedAt]\<rparr>"

definition traceability :: pgTable where
  "traceability = \<lparr>table_name = ''traceability'', columns =
     [serial_id, animalId, userId,
      notNull (column pg_text ''tipo_evento''),
      notNull (column pg_date ''fecha_evento''),
      notNull (column pg_text ''ubicacion''),
      column pg_text ''detalles'',
      createdAt, updatedAt]\<rparr>"

definition lotes :: pgTable where
  "lotes = \<lparr>table_name = ''lotes'', columns =
     [serial_id,
      notNull (column pg_text ''nombre''),
      column pg_text ''descripcion'',
      column pg_integer ''finca_id'',
      userId, createdAt, updatedAt]\<rparr>"

definition loteAnimals :: pgTable where
  "loteAnimals = \<lparr>table_name = ''lote_animals'', columns =
     [serial_id,
      references ''lotes'' ''id'' cascade (notNull (column pg_integer ''lote_id'')),
      animalId,
      defaultNow (column pg_timestamp ''fecha_ingreso''),
      column pg_timestamp ''fecha_salida'',
      userId, createdAt, updatedAt]\<rparr>"

text \<open>The nine tables declared after \<open>animals\<close>, in the order of the source.\<close>

definition dependent_tables :: "pgTable list" where
  "dependent_tables =
     [weightRecords, healthRecords, vaccinations, pestControl, reproduction, feeding,
      traceability, lotes, loteAnimals]"

definition schema :: "pgTable list" where
  "schema = users # animals # dependent_tables"

text \<open>
  \<open>cascades_to t c parent k\<close>: table \<open>t\<close> has a column \<open>c\<close> that references \<open>parent.k\<close> with
  \<open>onDelete: "cascade"\<close>.
\<close>

definition cascades_to :: "pgTable \<Rightarrow> string \<Rightarrow> string \<Rightarrow> string \<Rightarrow> bool" where
  "cascades_to t c parent k =
     list_ex (\<lambda>x. col_name x = c \<and> fk x = Some (parent, k, cascade)) (columns t)"

definition has_column :: "pgTable \<Rightarrow> string \<Rightarrow> bool" where
  "has_column t c = (c \<in> set (map col_name (columns t)))"

section \<open>What the declared foreign keys do on a delete\<close>

text \<open>
  The repository has no delete of its own; what \<open>onDelete: "cascade"\<close> promises is carried
  out by the database server. Its referential action, driven by the declarations above:
  deleting rows of a table deletes the rows of every table that reference them through
  a cascading foreign key, and so on from those. A row is a list of named cells, the
  stored tables are indexed by table name. The first argument bounds the depth of the
  cascade: \<open>None\<close> when it is too small for the schema.
\<close>

datatype cell = Null | IntV int | TextV js_string

type_synonym row = "(string \<times> cell) list"
type_synonym tables = "string \<Rightarrow> row list"

definition cell :: "row \<Rightarrow> string \<Rightarrow> cell" where
  "cell r c = (case map_of r c of None \<Rightarrow> Null | Some v \<Rightarrow> v)"

text \<open>The cascading foreign keys into \<open>parent\<close>: referencing table, its column, the referenced column.\<close>

definition fk_children :: "pgTable list \<Rightarrow> string \<Rightarrow> (string \<times> string \<times> string) list" where
  "fk_children sch parent =
     concat (map (\<lambda>t. concat (map (\<lambda>c.
        (case fk c of
           Some (p, k, cascade) \<Rightarrow> if p = parent then [(table_name t, col_name c, k)] else []
         | _ \<Rightarrow> [])) (columns t))) sch)"

definition refers_to :: "row list \<Rightarrow> string \<Rightarrow> string \<Rightarrow> row \<Rightarrow> bool" where
  "refers_to gone c k r = (cell r c \<noteq> Null \<and> cell r c \<in> set (map (\<lambda>g. cell g k) gone))"

fun delete_cascade :: "nat \<Rightarrow> pgTable list \<Rightarrow> string \<Rightarrow> (row \<Rightarrow> bool) \<Rightarrow> tables \<Rightarrow> tables option"
and delete_children ::
  "nat \<Rightarrow> pgTable list \<Rightarrow> row list \<Rightarrow> (string \<times> string \<times> string) list \<Rightarrow> tables \<Rightarrow> tables option"
where
  "delete_cascade n sch t P st =
     delete_children n sch (filter P (st t)) (fk_children sch t)
       (st(t := filter (\<lambda>r. \<not> P r) (st t)))"
| "delete_children n sch gone [] st = Some st"
| "delete_children 0 sch gone (x # xs) st = None"
| "delete_children (Suc n) sch gone ((t, c, k) # xs) st =
     (case delete_cascade n sch t (refers_to gone c k) st of
        None \<Rightarrow> None
      | Some st' \<Rightarrow> delete_children (Suc n) sch gone xs st')"

declare delete_cascade.simps [simp del]

section \<open>The Fincas page\<close>

text \<open>
  \<open>filteredFincas\<close> of the page component. \<open>String.prototype.toLowerCase\<close> belongs to the
  JavaScript runtime and is a parameter here.
\<close>

record Finca =
  finca_id :: int
  user_id :: int
  name :: js_string
  location :: js_string

definition filteredFincas :: "(js_string \<Rightarrow> js_string) \<Rightarrow> Finca list \<Rightarrow> js_string \<Rightarrow> Finca list" where
  "filteredFincas toLowerCase fincas searchTerm =
     filter (\<lambda>finca.
        includes_str (toLowerCase (name finca)) (toLowerCase searchTerm)
        \<or> includes_str (toLowerCase (location finca)) (toLowerCase searchTerm)) fincas"

section \<open>Example data\<close>

text \<open>
  A small environment, database and page state on which the definitions above are run.
  In \<open>example_env\<close> a token is the payload's id, its username and the key joined by dots,
  the hash of a password is the password behind a dollar sign, and the driver never
  fails; \<open>ascii_toLowerCase\<close> lowers the letters A to Z.
\<close>

definition example_env :: env where
  "example_env =
     \<lparr>JWT_SECRET = Some (lit ''k''),
      jwt_sign = (\<lambda>p s x. case s of
                    None \<Rightarrow> Inl (lit ''secretOrPrivateKey must have a value'')
                  | Some k \<Rightarrow> Inr (payload_id p @ [46] @ payload_username p @ [46] @ k)),
      jwt_verify = (\<lambda>t s. case split_str 46 t of
                      [i, n, k] \<Rightarrow>
                        if s = Some k then Some \<lparr>payload_id = i, payload_username = n\<rparr>
                        else None
                    | _ \<Rightarrow> None),
      bcrypt_hash = (\<lambda>p n. 36 # p),
      bcrypt_compare = (\<lambda>p h. h = 36 # p),
      driver_fault = (\<lambda>q. None),
      gen_random_uuid = lit ''u2'',
      now = 1000\<rparr>"

definition example_user :: "js_string \<Rightarrow> js_string \<Rightarrow> user_row" where
  "example_user i n =
     \<lparr>users_id = i, users_username = n, users_passwordHash = 36 # lit ''secret1'',
      users_email = lit ''a@b.c'', users_nombre = None, users_telefono = None,
      users_createdAt = Some 10, users_updatedAt = Some 10\<rparr>"

definition example_animal :: "nat \<Rightarrow> js_string \<Rightarrow> js_string \<Rightarrow> animal_row" where
  "example_animal i uid c =
     \<lparr>animals_id = i, animals_userId = uid, animals_codigoUnico = c,
      animals_nombre = None, animals_raza = None, animals_sexo = lit ''H'',
      animals_fechaNacimiento = None, animals_createdAt = Some 20,
      animals_updatedAt = Some 20\<rparr>"

definition example_db :: database where
  "example_db =
     \<lparr>users_rows = [example_user (lit ''u1'') (lit ''ana''),
                    example_user (lit ''u3'') (lit ''eva'')],
      animals_rows = [example_animal 1 (lit ''u1'') (lit ''A-1''),
                      example_animal 2 (lit ''u3'') (lit ''B-1''),
                      example_animal 3 (lit ''u1'') (lit ''A-2'')],
      animals_id_seq = 4\<rparr>"

text \<open>
  The same database after the signup of a user whose username is the empty string (the
  row that \<open>signup\<close> inserts in \<open>example_env\<close>).
\<close>

definition example_db_nameless :: database where
  "example_db_nameless =
     example_db\<lparr>users_rows := users_rows example_db @
       [(example_user (lit ''u2'') [])
          \<lparr>users_createdAt := Some 1000, users_updatedAt := Some 1000\<rparr>]\<rparr>"

definition example_request :: "js_string option \<Rightarrow> 'b \<Rightarrow> 'b request" where
  "example_request h b = \<lparr>authorization = h, body = b, user = None\<rparr>"

definition example_tables :: tables where
  "example_tables =
     (\<lambda>t. []) (''animals'' := [[(''id'', IntV 1)], [(''id'', IntV 2)]],
       ''weight_records'' := [[(''id'', IntV 1), (''animal_id'', IntV 1)],
                              [(''id'', IntV 2), (''animal_id'', IntV 2)]])"

definition example_fincas :: "Finca list" where
  "example_fincas =
     [\<lparr>finca_id = 1, user_id = 7, name = lit ''La Palma'', location = lit ''Cartago''\<rparr>,
      \<lparr>finca_id = 2, user_id = 7, name = lit ''El Roble'', location = lit ''Limon''\<rparr>]"

definition ascii_toLowerCase :: "js_string \<Rightarrow> js_string" where
  "ascii_toLowerCase s = map (\<lambda>c. if 65 \<le> c \<and> c \<le> 90 then c + 32 else c) s"

section \<open>Facts about strings\<close>

lemma split_str_nonempty: "split_str sep s \<noteq> []"
  by (induction s) (auto split: list.splits)

lemma hd_split_str: "hd (split_str sep s) = takeWhile (\<lambda>c. c \<noteq> sep) s"
  by (induction s) (auto simp: split_str_nonempty split: list.splits)

lemma at_index_0: "xs \<noteq> [] \<Longrightarrow> at_index xs 0 = Some (hd xs)"
  by (cases xs) auto

lemma split_part: "at_index (split_str 32 s) (Suc 0) = part_after_first_space s"
proof (induction s)
  case Nil
  show ?case by (simp add: part_after_first_space_def)
next
  case (Cons c cs)
  show ?case
  proof (cases "c = 32")
    case True
    then show ?thesis
      by (simp add: part_after_first_space_def at_index_0 split_str_nonempty hd_split_str)
  next
    case False
    obtain w ws where sp: "split_str 32 cs = w # ws"
      using split_str_nonempty [of 32 cs] by (cases "split_str 32 cs") auto
    have "at_index (split_str 32 (c # cs)) (Suc 0) = at_index (split_str 32 cs) (Suc 0)"
      using False sp by simp
    also have "\<dots> = part_after_first_space cs" by (rule Cons.IH)
    also have "\<dots> = part_after_first_space (c # cs)"
      using False by (simp add: part_after_first_space_def)
    finally show ?thesis .
  qed
qed

lemma bearer_token_part:
  "bearer_token req = (case authorization req of None \<Rightarrow> None | Some h \<Rightarrow> part_after_first_space h)"
  by (simp add: bearer_token_def split_part split: option.splits)

lemma startsWith_append: "startsWith (t @ s) t"
  by (induction t) auto

lemma startsWith_includes: "startsWith s t \<Longrightarrow> includes_str s t"
  by (cases s; cases t) auto

lemma lit_append: "lit (a @ b) = lit a @ lit b"
  by (simp add: lit_def)

lemma unique_violation_duplicate: "includes_str (unique_violation c) duplicate_key_phrase"
proof -
  have "unique_violation c = duplicate_key_phrase @ ([32, 34] @ lit c @ [34])"
    by (simp add: unique_violation_def duplicate_key_phrase_def lit_def)
  then show ?thesis
    by (simp add: startsWith_append startsWith_includes del: append.simps)
qed

lemma startsWith_prefix: "startsWith s t \<longleftrightarrow> prefix t s"
  by (induction s t rule: startsWith.induct) auto

lemma includes_str_sublist: "includes_str s t \<longleftrightarrow> sublist t s"
proof (induction s)
  case Nil
  then show ?case by simp
next
  case (Cons c s)
  then show ?case by (simp add: startsWith_prefix sublist_Cons_right)
qed

section \<open>Facts about the queries and the schemas\<close>

lemma filter_no_username:
  "u \<notin> set (map users_username rs) \<Longrightarrow> filter (\<lambda>r. users_username r = u) rs = []"
  by (auto simp: filter_empty_conv)

lemma filter_unique_username:
  "distinct (map users_username rs) \<Longrightarrow> usr \<in> set rs \<Longrightarrow>
   filter (\<lambda>r. users_username r = users_username usr) rs = [usr]"
proof (induction rs)
  case Nil
  then show ?case by simp
next
  case (Cons r rs)
  show ?case
  proof (cases "r = usr")
    case True
    have "users_username usr \<notin> set (map users_username rs)"
      using Cons.prems(1) True by simp
    then have "filter (\<lambda>x. users_username x = users_username usr) rs = []"
      by (rule filter_no_username)
    then show ?thesis using True by simp
  next
    case False
    then have in_rs: "usr \<in> set rs" using Cons.prems(2) by simp
    then have "users_username usr \<in> set (map users_username rs)" by simp
    then have "users_username r \<noteq> users_username usr"
      using Cons.prems(1) by auto
    then show ?thesis using Cons.IH Cons.prems(1) in_rs by simp
  qed
qed

text \<open>The inserts keep the usernames unique, as the constraint on \<open>users.username\<close> demands.\<close>

lemma insert_users_keeps_usernames_unique:
  "distinct (map users_username (users_rows db)) \<Longrightarrow>
   distinct (map users_username (users_rows (snd (insert_users e db u em h))))"
  by (simp add: insert_users_def new_user_row_def split: option.splits)

lemma signup_keeps_usernames_unique:
  "distinct (map users_username (users_rows db)) \<Longrightarrow>
   distinct (map users_username (users_rows (store (signup e req db))))"
proof (cases "insertUserSchema_safeParse (body req)")
  case (Inl errs)
  assume "distinct (map users_username (users_rows db))"
  then show ?thesis using Inl by (simp add: signup_def respond_def)
next
  case (Inr d)
  assume "distinct (map users_username (users_rows db))"
  from insert_users_keeps_usernames_unique [OF this,
      of e "username d" "email d" "bcrypt_hash e (password d) 10"]
  show ?thesis using Inr
    by (auto simp: signup_def respond_def Let_def split: prod.splits sum.splits)
qed

lemma safeParse_user_missing:
  "map_of kvs (lit ''username'') = None \<or> map_of kvs (lit ''email'') = None
   \<or> (\<exists>p. map_of kvs (lit ''password'') = Some (JStr p) \<and> length p < 6)
   \<Longrightarrow> \<exists>errs. insertUserSchema_safeParse (JObj kvs) = Inl errs"
  by (auto simp: insertUserSchema_safeParse_def Let_def split: sum.splits)

lemma lit_keys_distinct:
  "lit ''codigoUnico'' \<noteq> lit ''userId''" "lit ''nombre'' \<noteq> lit ''userId''"
  "lit ''raza'' \<noteq> lit ''userId''" "lit ''sexo'' \<noteq> lit ''userId''"
  "lit ''fechaNacimiento'' \<noteq> lit ''userId''"
  by (simp_all add: lit_def)

lemma safeParse_animal_ignores_userId:
  assumes "\<forall>k. k \<noteq> lit ''userId'' \<longrightarrow> map_of kvs k = map_of kvs' k"
  shows "insertAnimalSchema_safeParse (JObj kvs) = insertAnimalSchema_safeParse (JObj kvs')"
proof -
  have "map_of kvs (lit ''codigoUnico'') = map_of kvs' (lit ''codigoUnico'')"
    "map_of kvs (lit ''nombre'') = map_of kvs' (lit ''nombre'')"
    "map_of kvs (lit ''raza'') = map_of kvs' (lit ''raza'')"
    "map_of kvs (lit ''sexo'') = map_of kvs' (lit ''sexo'')"
    "map_of kvs (lit ''fechaNacimiento'') = map_of kvs' (lit ''fechaNacimiento'')"
    using assms lit_keys_distinct by blast+
  then show ?thesis
    by (simp add: insertAnimalSchema_safeParse_def)
qed

section \<open>Facts about the cascade\<close>

lemmas schema_defs = schema_def dependent_tables_def users_def animals_def weightRecords_def
  healthRecords_def vaccinations_def pestControl_def reproduction_def feeding_def
  traceability_def lotes_def loteAnimals_def serial_id_def animalId_def userId_def
  createdAt_def updatedAt_def column_def notNull_def unique_def primaryKey_def
  default_sql_def defaultNow_def references_def

lemma fk_children_animals:
  "fk_children schema ''animals'' =
     [(''weight_records'', ''animal_id'', ''id''), (''health_records'', ''animal_id'', ''id''),
      (''vaccinations'', ''animal_id'', ''id''), (''pest_control'', ''animal_id'', ''id''),
      (''reproduction'', ''animal_id'', ''id''), (''feeding'', ''animal_id'', ''id''),
      (''traceability'', ''animal_id'', ''id''), (''lote_animals'', ''animal_id'', ''id'')]"
  by (simp add: fk_children_def schema_defs)

lemma fk_children_users:
  "fk_children schema ''users'' =
     [(''animals'', ''user_id'', ''id''),
      (''weight_records'', ''user_id'', ''id''), (''health_records'', ''user_id'', ''id''),
      (''vaccinations'', ''user_id'', ''id''), (''pest_control'', ''user_id'', ''id''),
      (''reproduction'', ''user_id'', ''id''), (''feeding'', ''user_id'', ''id''),
      (''traceability'', ''user_id'', ''id''), (''lotes'', ''user_id'', ''id''),
      (''lote_animals'', ''user_id'', ''id'')]"
  by (simp add: fk_children_def schema_defs)

lemma fk_children_lotes:
  "fk_children schema ''lotes'' = [(''lote_animals'', ''lote_id'', ''id'')]"
  by (simp add: fk_children_def schema_defs)

lemma delete_only_removes:
  "delete_cascade n sch t P st = Some st' \<Longrightarrow> set (st' x) \<subseteq> set (st x)"
  "delete_children n sch gone cs st = Some st' \<Longrightarrow> set (st' x) \<subseteq> set (st x)"
proof (induction n sch t P st and n sch gone cs st arbitrary: st' and st'
    rule: delete_cascade_delete_children.induct)
  case (1 n sch t P st)
  from "1.prems" have "delete_children n sch (filter P (st t)) (fk_children sch t)
       (st(t := filter (\<lambda>r. \<not> P r) (st t))) = Some st'"
    by (simp add: delete_cascade.simps)
  from "1.IH" [OF this] show ?case by (auto split: if_splits)
next
  case (2 n sch gone st)
  then show ?case by simp
next
  case (3 sch gone x xs st)
  then show ?case by simp
next
  case (4 n sch gone t c k xs st)
  from "4.prems" obtain st1 where
    a: "delete_cascade n sch t (refers_to gone c k) st = Some st1"
    and b: "delete_children (Suc n) sch gone xs st1 = Some st'"
    by (auto split: option.splits)
  from "4.IH"(1) [OF a] "4.IH"(2) [OF a b] show ?case by blast
qed

lemma delete_cascade_target:
  assumes "delete_cascade n sch t P st = Some st'" and "r \<in> set (st' t)"
  shows "\<not> P r"
proof -
  have "delete_children n sch (filter P (st t)) (fk_children sch t)
       (st(t := filter (\<lambda>r. \<not> P r) (st t))) = Some st'"
    using assms(1) by (simp add: delete_cascade.simps)
  from delete_only_removes(2) [OF this, of t] assms(2) show ?thesis by auto
qed

lemma delete_children_referencing:
  "delete_children n sch gone cs st = Some st' \<Longrightarrow> (t, c, k) \<in> set cs \<Longrightarrow>
   r \<in> set (st' t) \<Longrightarrow> \<not> refers_to gone c k r"
proof (induction cs arbitrary: st n)
  case Nil
  then show ?case by simp
next
  case (Cons x xs)
  obtain t1 c1 k1 where x: "x = (t1, c1, k1)" by (cases x)
  from Cons.prems(1) x obtain m where n: "n = Suc m" by (cases n) auto
  from Cons.prems(1) x n obtain st1 where
    a: "delete_cascade m sch t1 (refers_to gone c1 k1) st = Some st1"
    and b: "delete_children (Suc m) sch gone xs st1 = Some st'"
    by (auto split: option.splits)
  show ?case
  proof (cases "(t, c, k) = x")
    case True
    then have eq: "t1 = t" "c1 = c" "k1 = k" using x by auto
    have "r \<in> set (st1 t)"
      using delete_only_removes(2) [OF b, of t] Cons.prems(3) by auto
    then show ?thesis using delete_cascade_target [OF a] eq by simp
  next
    case False
    then have "(t, c, k) \<in> set xs" using Cons.prems(2) by simp
    from Cons.IH [OF b this Cons.prems(3)] show ?thesis .
  qed
qed

lemma delete_cascade_referencing:
  assumes d: "delete_cascade n sch p P st = Some st'"
    and child: "(t, c, k) \<in> set (fk_children sch p)"
    and g: "g \<in> set (st p)" "P g" "cell g k \<noteq> Null"
    and r: "r \<in> set (st' t)"
  shows "cell r c \<noteq> cell g k"
proof -
  have "delete_children n sch (filter P (st p)) (fk_children sch p)
       (st(p := filter (\<lambda>r. \<not> P r) (st p))) = Some st'"
    using d by (simp add: delete_cascade.simps)
  from delete_children_referencing [OF this child r]
  have "\<not> refers_to (filter P (st p)) c k r" .
  moreover have "cell g k \<in> set (map (\<lambda>g. cell g k) (filter P (st p)))"
    using g by auto
  ultimately show ?thesis using g(3) by (auto simp: refers_to_def)
qed

lemma delete_children_total:
  "(\<And>t c k Q s. (t, c, k) \<in> set cs \<Longrightarrow> delete_cascade n sch t Q s \<noteq> None) \<Longrightarrow>
   delete_children (Suc n) sch gone cs st \<noteq> None"
proof (induction cs arbitrary: st)
  case Nil
  then show ?case by simp
next
  case (Cons x xs)
  obtain t c k where x: "x = (t, c, k)" by (cases x)
  then obtain st1 where a: "delete_cascade n sch t (refers_to gone c k) st = Some st1"
    using Cons.prems [of t c k "refers_to gone c k" st] by auto
  have "delete_children (Suc n) sch gone xs st1 \<noteq> None"
  proof (rule Cons.IH)
    fix t' c' k' Q s
    assume "(t', c', k') \<in> set xs"
    then have "(t', c', k') \<in> set (x # xs)" by simp
    then show "delete_cascade n sch t' Q s \<noteq> None" by (rule Cons.prems)
  qed
  then show ?case using x a by simp
qed

lemma delete_leaf_total:
  "fk_children sch t = [] \<Longrightarrow> delete_cascade n sch t P st \<noteq> None"
  by (simp add: delete_cascade.simps)

lemma fk_children_leaves:
  "fk_children schema ''weight_records'' = []" "fk_children schema ''health_records'' = []"
  "fk_children schema ''vaccinations'' = []" "fk_children schema ''pest_control'' = []"
  "fk_children schema ''reproduction'' = []" "fk_children schema ''feeding'' = []"
  "fk_children schema ''traceability'' = []" "fk_children schema ''lote_animals'' = []"
  by (simp_all add: fk_children_def schema_defs)

lemma children_of_animals_are_leaves:
  "list_all (\<lambda>(t, c, k). fk_children schema t = []) (fk_children schema ''animals'')"
  by (simp add: fk_children_animals fk_children_leaves)

lemma children_of_lotes_are_leaves:
  "list_all (\<lambda>(t, c, k). fk_children schema t = []) (fk_children schema ''lotes'')"
  by (simp add: fk_children_lotes fk_children_leaves)

lemma children_of_users:
  "list_all (\<lambda>(t, c, k). t = ''animals'' \<or> t = ''lotes'' \<or> fk_children schema t = [])
     (fk_children schema ''users'')"
  by (simp add: fk_children_users fk_children_leaves)

lemma delete_animal_total: "delete_cascade (Suc n) schema ''animals'' P st \<noteq> None"
proof -
  have "delete_children (Suc n) schema gone (fk_children schema ''animals'') s \<noteq> None"
    for gone s
  proof (rule delete_children_total)
    fix t c k Q s'
    assume "(t, c, k) \<in> set (fk_children schema ''animals'')"
    then have "fk_children schema t = []"
      using children_of_animals_are_leaves by (force simp: list_all_iff)
    then show "delete_cascade n schema t Q s' \<noteq> None" by (rule delete_leaf_total)
  qed
  then show ?thesis by (simp add: delete_cascade.simps)
qed

lemma delete_lote_total: "delete_cascade (Suc n) schema ''lotes'' P st \<noteq> None"
proof -
  have "delete_children (Suc n) schema gone (fk_children schema ''lotes'') s \<noteq> None"
    for gone s
  proof (rule delete_children_total)
    fix t c k Q s'
    assume "(t, c, k) \<in> set (fk_children schema ''lotes'')"
    then have "fk_children schema t = []"
      using children_of_lotes_are_leaves by (force simp: list_all_iff)
    then show "delete_cascade n schema t Q s' \<noteq> None" by (rule delete_leaf_total)
  qed
  then show ?thesis by (simp add: delete_cascade.simps)
qed

lemma delete_user_total: "delete_cascade (Suc (Suc n)) schema ''users'' P st \<noteq> None"
proof -
  have "delete_children (Suc (Suc n)) schema gone (fk_children schema ''users'') s \<noteq> None"
    for gone s
  proof (rule delete_children_total)
    fix t c k Q s'
    assume "(t, c, k) \<in> set (fk_children schema ''users'')"
    then consider "t = ''animals''" | "t = ''lotes''" | "fk_children schema t = []"
      using children_of_users by (force simp: list_all_iff)
    then show "delete_cascade (Suc n) schema t Q s' \<noteq> None"
    proof cases
      case 1
      then show ?thesis using delete_animal_total by blast
    next
      case 2
      then show ?thesis using delete_lote_total by blast
    next
      case 3
      then show ?thesis by (rule delete_leaf_total)
    qed
  qed
  then show ?thesis by (simp add: delete_cascade.simps)
qed

lemma table_names:
  "table_name weightRecords = ''weight_records''" "table_name healthRecords = ''health_records''"
  "table_name vaccinations = ''vaccinations''" "table_name pestControl = ''pest_control''"
  "table_name reproduction = ''reproduction''" "table_name feeding = ''feeding''"
  "table_name traceability = ''traceability''" "table_name lotes = ''lotes''"
  "table_name loteAnimals = ''lote_animals''"
  by (simp_all add: weightRecords_def healthRecords_def vaccinations_def pestControl_def
      reproduction_def feeding_def traceability_def lotes_def loteAnimals_def)

lemma animal_children:
  "list_all (\<lambda>t. table_name t \<noteq> ''lotes''
      \<longrightarrow> (table_name t, ''animal_id'', ''id'') \<in> set (fk_children schema ''animals''))
     dependent_tables"
  by (simp add: fk_children_animals dependent_tables_def table_names)

lemma user_children:
  "list_all (\<lambda>t. (table_name t, ''user_id'', ''id'') \<in> set (fk_children schema ''users''))
     dependent_tables"
  by (simp add: fk_children_users dependent_tables_def table_names)

section \<open>The claims\<close>

lemmas example_defs = example_env_def example_user_def example_animal_def example_db_def
  example_db_nameless_def example_request_def lit_def respond_def

text \<open>
  C1. On \<open>GET /api/animals\<close> and on \<open>POST /api/animals\<close>: when the \<open>Authorization\<close> header
  is absent or has no part after its first space, the response is 401 with the error
  payload, the database is untouched and no query is issued; when the part after the
  first space is there and fails \<open>jwt.verify\<close> against \<open>JWT_SECRET\<close>, the response is 403
  with the error payload, again with no query; when it verifies, the request runs the
  route body with \<open>req.user\<close> set to the decoded payload; and in every other case the
  route body is not run (the outcome is the same whatever stands behind the middleware).
\<close>

theorem authenticateToken_guards_animals:
  fixes req :: "json request"
  shows
  "((authorization req = None \<or>
     (\<exists>h. authorization req = Some h \<and>
          (part_after_first_space h = None \<or> part_after_first_space h = Some [])))
     \<longrightarrow> get_animals e req db = respond 401 (error Token_requerido) db []
       \<and> post_animals e req db = respond 401 (error Token_requerido) db [])
   \<and> (\<forall>h t. authorization req = Some h \<and> part_after_first_space h = Some t \<and> t \<noteq> []
          \<and> jwt_verify e t (JWT_SECRET e) = None
     \<longrightarrow> get_animals e req db = respond 403 (error Token_invalido) db []
       \<and> post_animals e req db = respond 403 (error Token_invalido) db [])
   \<and> (\<forall>h t u. authorization req = Some h \<and> part_after_first_space h = Some t \<and> t \<noteq> []
          \<and> jwt_verify e t (JWT_SECRET e) = Some u
     \<longrightarrow> get_animals e req db = get_animals_body e (req\<lparr>user := Some u\<rparr>) db
       \<and> post_animals e req db = post_animals_body e (req\<lparr>user := Some u\<rparr>) db)
   \<and> (\<forall>next next'.
        \<not> (\<exists>h t u. authorization req = Some h \<and> part_after_first_space h = Some t \<and> t \<noteq> []
               \<and> jwt_verify e t (JWT_SECRET e) = Some u)
     \<longrightarrow> authenticateToken e req db next = authenticateToken e req db next')"
  by (auto simp: get_animals_def post_animals_def authenticateToken_def bearer_token_part
      split: option.splits)


text \<open>On the example data: a header without a space, a token that does not verify, and one that does.\<close>

theorem authenticateToken_guards_animals_witness:
  "part_after_first_space (lit ''Bearer'') = None
   \<and> get_animals example_env (example_request (Some (lit ''Bearer'')) JNull) example_db
       = respond 401 (error Token_requerido) example_db []
   \<and> part_after_first_space (lit ''Bearer x'') = Some (lit ''x'')
   \<and> jwt_verify example_env (lit ''x'') (JWT_SECRET example_env) = None
   \<and> post_animals example_env (example_request (Some (lit ''Bearer x'')) JNull) example_db
       = respond 403 (error Token_invalido) example_db []
   \<and> part_after_first_space (lit ''Bearer u1.ana.k'') = Some (lit ''u1.ana.k'')
   \<and> jwt_verify example_env (lit ''u1.ana.k'') (JWT_SECRET example_env)
       = Some \<lparr>payload_id = lit ''u1'', payload_username = lit ''ana''\<rparr>
   \<and> status (get_animals example_env
        (example_request (Some (lit ''Bearer u1.ana.k'')) JNull) example_db) = 200"
  using authenticateToken_guards_animals
      [of "example_request (Some (lit ''Bearer'')) JNull" example_env example_db]
    authenticateToken_guards_animals
      [of "example_request (Some (lit ''Bearer x'')) JNull" example_env example_db]
    authenticateToken_guards_animals
      [of "example_request (Some (lit ''Bearer u1.ana.k'')) JNull" example_env example_db]
  by (simp add: example_defs part_after_first_space_def get_animals_body_def
      select_animals_def)

text \<open>
  C3. On \<open>POST /api/signup\<close>: when the body fails \<open>insertUserSchema\<close>, the response is 400
  with the validation issues, the stored state is unchanged and no insert is issued.
  In particular a body whose username or email is missing, or whose password is shorter
  than 6, fails the schema.
\<close>

theorem signup_rejects_invalid_body:
  "(\<forall>errs. insertUserSchema_safeParse (body req) = Inl errs
       \<longrightarrow> signup e req db = respond 400 (errors errs) db [])
   \<and> (\<forall>kvs. body req = JObj kvs
         \<and> (map_of kvs (lit ''username'') = None \<or> map_of kvs (lit ''email'') = None
            \<or> (\<exists>p. map_of kvs (lit ''password'') = Some (JStr p) \<and> length p < 6))
       \<longrightarrow> (\<exists>errs. insertUserSchema_safeParse (body req) = Inl errs)
         \<and> status (signup e req db) = 400 \<and> store (signup e req db) = db
         \<and> db_ops (signup e req db) = [])"
proof (rule conjI)
  show "\<forall>errs. insertUserSchema_safeParse (body req) = Inl errs
       \<longrightarrow> signup e req db = respond 400 (errors errs) db []"
    by (simp add: signup_def)
next
  show "\<forall>kvs. body req = JObj kvs
         \<and> (map_of kvs (lit ''username'') = None \<or> map_of kvs (lit ''email'') = None
            \<or> (\<exists>p. map_of kvs (lit ''password'') = Some (JStr p) \<and> length p < 6))
       \<longrightarrow> (\<exists>errs. insertUserSchema_safeParse (body req) = Inl errs)
         \<and> status (signup e req db) = 400 \<and> store (signup e req db) = db
         \<and> db_ops (signup e req db) = []"
  proof (intro allI impI)
    fix kvs
    assume a: "body req = JObj kvs
         \<and> (map_of kvs (lit ''username'') = None \<or> map_of kvs (lit ''email'') = None
            \<or> (\<exists>p. map_of kvs (lit ''password'') = Some (JStr p) \<and> length p < 6))"
    then obtain errs where e: "insertUserSchema_safeParse (body req) = Inl errs"
      using safeParse_user_missing [of kvs] by auto
    then show "(\<exists>errs. insertUserSchema_safeParse (body req) = Inl errs)
         \<and> status (signup e req db) = 400 \<and> store (signup e req db) = db
         \<and> db_ops (signup e req db) = []"
      by (simp add: signup_def respond_def)
  qed
qed


text \<open>On the example data: a password of three code units, and a body without username and email.\<close>

theorem signup_rejects_invalid_body_witness:
  "insertUserSchema_safeParse
      (JObj [(lit ''username'', JStr (lit ''luz'')), (lit ''email'', JStr (lit ''l@b.c'')),
             (lit ''password'', JStr (lit ''abc''))])
     = Inl [too_small [lit ''password''] 6]
   \<and> signup example_env
        (example_request None
          (JObj [(lit ''username'', JStr (lit ''luz'')), (lit ''email'', JStr (lit ''l@b.c'')),
                 (lit ''password'', JStr (lit ''abc''))])) example_db
     = respond 400 (errors [too_small [lit ''password''] 6]) example_db []
   \<and> status (signup example_env
        (example_request None (JObj [(lit ''password'', JStr (lit ''secret1''))]))
        example_db) = 400"
  using signup_rejects_invalid_body
      [of "example_request None
          (JObj [(lit ''username'', JStr (lit ''luz'')), (lit ''email'', JStr (lit ''l@b.c'')),
                 (lit ''password'', JStr (lit ''abc''))])" example_env example_db]
    signup_rejects_invalid_body
      [of "example_request None (JObj [(lit ''password'', JStr (lit ''secret1''))])"
        example_env example_db]
  by (simp add: example_defs insertUserSchema_safeParse_def)

text \<open>
  C4. On \<open>POST /api/signup\<close> with a body that passes validation: when the username is
  already stored (and the insert reaches the constraint check), the response is 409
  with the error payload and the stored state is unchanged; when the insert fails with a
  message that does not contain the duplicate-key phrase, the response is 500 with that
  message.
\<close>

theorem signup_duplicate_username_conflict:
  "(\<forall>d. insertUserSchema_safeParse (body req) = Inr d
        \<and> username d \<in> set (map users_username (users_rows db))
        \<and> driver_fault e (InsertUser (username d) (email d) (bcrypt_hash e (password d) 10))
            = None
      \<longrightarrow> signup e req db
            = respond 409 (error El_nombre_de_usuario_o_email_ya_existe) db
                [InsertUser (username d) (email d) (bcrypt_hash e (password d) 10)])
   \<and> (\<forall>d m db'. insertUserSchema_safeParse (body req) = Inr d
        \<and> insert_users e db (username d) (email d) (bcrypt_hash e (password d) 10)
            = (Inl m, db')
        \<and> \<not> includes_str m duplicate_key_phrase
      \<longrightarrow> signup e req db
            = respond 500 (error (err_message m)) db
                [InsertUser (username d) (email d) (bcrypt_hash e (password d) 10)])"
proof (intro conjI allI impI)
  fix d
  assume a: "insertUserSchema_safeParse (body req) = Inr d
        \<and> username d \<in> set (map users_username (users_rows db))
        \<and> driver_fault e (InsertUser (username d) (email d) (bcrypt_hash e (password d) 10))
            = None"
  then have "insert_users e db (username d) (email d) (bcrypt_hash e (password d) 10)
      = (Inl (unique_violation ''users_username_unique''), db)"
    by (simp add: insert_users_def)
  then show "signup e req db
            = respond 409 (error El_nombre_de_usuario_o_email_ya_existe) db
                [InsertUser (username d) (email d) (bcrypt_hash e (password d) 10)]"
    using a by (simp add: signup_def Let_def unique_violation_duplicate)
next
  fix d m db'
  assume a: "insertUserSchema_safeParse (body req) = Inr d
        \<and> insert_users e db (username d) (email d) (bcrypt_hash e (password d) 10)
            = (Inl m, db')
        \<and> \<not> includes_str m duplicate_key_phrase"
  then have "db' = db"
    by (auto simp: insert_users_def split: option.splits if_splits)
  then show "signup e req db
            = respond 500 (error (err_message m)) db
                [InsertUser (username d) (email d) (bcrypt_hash e (password d) 10)]"
    using a by (simp add: signup_def Let_def)
qed


text \<open>On the example data: a second signup as \<open>ana\<close>, with the driver working and with the connection refused.\<close>

theorem signup_duplicate_username_conflict_witness:
  "insertUserSchema_safeParse
      (JObj [(lit ''username'', JStr (lit ''ana'')), (lit ''email'', JStr (lit ''l@b.c'')),
             (lit ''password'', JStr (lit ''secret2''))])
     = Inr \<lparr>username = lit ''ana'', email = lit ''l@b.c'', password = lit ''secret2''\<rparr>
   \<and> lit ''ana'' \<in> set (map users_username (users_rows example_db))
   \<and> signup example_env
        (example_request None
          (JObj [(lit ''username'', JStr (lit ''ana'')), (lit ''email'', JStr (lit ''l@b.c'')),
                 (lit ''password'', JStr (lit ''secret2''))])) example_db
     = respond 409 (error El_nombre_de_usuario_o_email_ya_existe) example_db
         [InsertUser (lit ''ana'') (lit ''l@b.c'') (36 # lit ''secret2'')]
   \<and> \<not> includes_str (lit ''connection refused'') duplicate_key_phrase
   \<and> signup (example_env\<lparr>driver_fault := \<lambda>q. Some (lit ''connection refused'')\<rparr>)
        (example_request None
          (JObj [(lit ''username'', JStr (lit ''ana'')), (lit ''email'', JStr (lit ''l@b.c'')),
                 (lit ''password'', JStr (lit ''secret2''))])) example_db
     = respond 500 (error (err_message (lit ''connection refused''))) example_db
         [InsertUser (lit ''ana'') (lit ''l@b.c'') (36 # lit ''secret2'')]"
  using signup_duplicate_username_conflict
      [of "example_request None
          (JObj [(lit ''username'', JStr (lit ''ana'')), (lit ''email'', JStr (lit ''l@b.c'')),
                 (lit ''password'', JStr (lit ''secret2''))])" example_db example_env]
    signup_duplicate_username_conflict
      [of "example_request None
          (JObj [(lit ''username'', JStr (lit ''ana'')), (lit ''email'', JStr (lit ''l@b.c'')),
                 (lit ''password'', JStr (lit ''secret2''))])" example_db
          "example_env\<lparr>driver_fault := \<lambda>q. Some (lit ''connection refused'')\<rparr>"]
  by (simp add: example_defs insertUserSchema_safeParse_def insert_users_def
      duplicate_key_phrase_def)

text \<open>
  C9. When \<open>POST /api/signup\<close> answers 201, the payload's user is the whole inserted row:
  the generated id, the username and email of the body, the password hash
  \<open>bcrypt.hash(password, 10)\<close>, and the defaults of the other columns; that row is what
  the table gains. No column holds the password: the outcome is the same for any two
  valid bodies with the same username, email and password hash.
\<close>

theorem signup_returns_inserted_row:
  "status (signup e req db) = 201 \<longrightarrow>
   (\<exists>d. insertUserSchema_safeParse (body req) = Inr d
      \<and> sent (signup e req db)
          = Usuario_creado
              \<lparr>users_id = gen_random_uuid e, users_username = username d,
               users_passwordHash = bcrypt_hash e (password d) 10,
               users_email = email d, users_nombre = None, users_telefono = None,
               users_createdAt = Some (now e), users_updatedAt = Some (now e)\<rparr>
      \<and> store (signup e req db)
          = db\<lparr>users_rows := users_rows db @
              [\<lparr>users_id = gen_random_uuid e, users_username = username d,
                users_passwordHash = bcrypt_hash e (password d) 10,
                users_email = email d, users_nombre = None, users_telefono = None,
                users_createdAt = Some (now e), users_updatedAt = Some (now e)\<rparr>]\<rparr>
      \<and> (\<forall>req' d'. insertUserSchema_safeParse (body req') = Inr d'
            \<and> username d' = username d \<and> email d' = email d
            \<and> bcrypt_hash e (password d') 10 = bcrypt_hash e (password d) 10
          \<longrightarrow> signup e req' db = signup e req db))"
proof
  assume s: "status (signup e req db) = 201"
  then obtain d where d: "insertUserSchema_safeParse (body req) = Inr d"
    by (cases "insertUserSchema_safeParse (body req)") (auto simp: signup_def respond_def)
  let ?h = "bcrypt_hash e (password d) 10"
  have ins: "insert_users e db (username d) (email d) ?h
      = (Inr (new_user_row e (username d) (email d) ?h),
         db\<lparr>users_rows := users_rows db @ [new_user_row e (username d) (email d) ?h]\<rparr>)"
    using s d
    by (auto simp: signup_def respond_def insert_users_def Let_def
        split: option.splits if_splits)
  have "\<forall>req' d'. insertUserSchema_safeParse (body req') = Inr d'
            \<and> username d' = username d \<and> email d' = email d
            \<and> bcrypt_hash e (password d') 10 = bcrypt_hash e (password d) 10
          \<longrightarrow> signup e req' db = signup e req db"
    using d by (simp add: signup_def Let_def)
  then show "\<exists>d. insertUserSchema_safeParse (body req) = Inr d
      \<and> sent (signup e req db)
          = Usuario_creado
              \<lparr>users_id = gen_random_uuid e, users_username = username d,
               users_passwordHash = bcrypt_hash e (password d) 10,
               users_email = email d, users_nombre = None, users_telefono = None,
               users_createdAt = Some (now e), users_updatedAt = Some (now e)\<rparr>
      \<and> store (signup e req db)
          = db\<lparr>users_rows := users_rows db @
              [\<lparr>users_id = gen_random_uuid e, users_username = username d,
                users_passwordHash = bcrypt_hash e (password d) 10,
                users_email = email d, users_nombre = None, users_telefono = None,
                users_createdAt = Some (now e), users_updatedAt = Some (now e)\<rparr>]\<rparr>
      \<and> (\<forall>req' d'. insertUserSchema_safeParse (body req') = Inr d'
            \<and> username d' = username d \<and> email d' = email d
            \<and> bcrypt_hash e (password d') 10 = bcrypt_hash e (password d) 10
          \<longrightarrow> signup e req' db = signup e req db)"
    using d ins
    by (intro exI [of _ d]) (simp add: signup_def Let_def respond_def new_user_row_def)
qed


text \<open>On the example data: the signup of \<open>luz\<close>.\<close>

theorem signup_returns_inserted_row_witness:
  "signup example_env
     (example_request None
       (JObj [(lit ''username'', JStr (lit ''luz'')), (lit ''email'', JStr (lit ''l@b.c'')),
              (lit ''password'', JStr (lit ''secret2''))])) example_db
   = respond 201
       (Usuario_creado
          \<lparr>users_id = lit ''u2'', users_username = lit ''luz'',
           users_passwordHash = 36 # lit ''secret2'', users_email = lit ''l@b.c'',
           users_nombre = None, users_telefono = None, users_createdAt = Some 1000,
           users_updatedAt = Some 1000\<rparr>)
       (example_db\<lparr>users_rows := users_rows example_db @
          [\<lparr>users_id = lit ''u2'', users_username = lit ''luz'',
            users_passwordHash = 36 # lit ''secret2'', users_email = lit ''l@b.c'',
            users_nombre = None, users_telefono = None, users_createdAt = Some 1000,
            users_updatedAt = Some 1000\<rparr>]\<rparr>)
       [InsertUser (lit ''luz'') (lit ''l@b.c'') (36 # lit ''secret2'')]"
  using signup_returns_inserted_row
      [of example_env "example_request None
       (JObj [(lit ''username'', JStr (lit ''luz'')), (lit ''email'', JStr (lit ''l@b.c'')),
              (lit ''password'', JStr (lit ''secret2''))])" example_db]
  by (simp add: example_defs insertUserSchema_safeParse_def insert_users_def signup_def
      new_user_row_def Let_def)

text \<open>
  C2, amended. For a stored user (usernames being unique, as the schema enforces) and a
  \<open>POST /api/login\<close> request whose username is that user's and is not the empty string,
  whose password is not the empty string and compares equal to the stored hash, when
  the query and the signing do not throw: the response is 200 with the token that
  \<open>jwt.sign\<close> returns for the payload of exactly that user's id and username, the key
  \<open>JWT_SECRET\<close> and \<open>expiresIn: "1h"\<close>; the database is unchanged.
\<close>

theorem login_returns_token:
  "distinct (map users_username (users_rows db)) \<and> usr \<in> set (users_rows db)
   \<and> login_username (body req) = Some (users_username usr) \<and> users_username usr \<noteq> []
   \<and> login_password (body req) = Some p \<and> p \<noteq> []
   \<and> driver_fault e (SelectUsersByUsername (users_username usr)) = None
   \<and> bcrypt_compare e p (users_passwordHash usr)
   \<and> jwt_sign e \<lparr>payload_id = users_id usr, payload_username = users_username usr\<rparr>
        (JWT_SECRET e) (lit ''1h'') = Inr t
   \<longrightarrow> login e req db = respond 200 (token t) db [SelectUsersByUsername (users_username usr)]"
  by (auto simp: login_def falsy_def select_users_def filter_unique_username)


text \<open>On the example data: \<open>ana\<close> logs in with her password.\<close>

theorem login_returns_token_witness:
  "distinct (map users_username (users_rows example_db))
   \<and> example_user (lit ''u1'') (lit ''ana'') \<in> set (users_rows example_db)
   \<and> bcrypt_compare example_env (lit ''secret1'')
        (users_passwordHash (example_user (lit ''u1'') (lit ''ana'')))
   \<and> login example_env
        (example_request None
          \<lparr>login_username = Some (lit ''ana''), login_password = Some (lit ''secret1'')\<rparr>)
        example_db
     = respond 200 (token (lit ''u1.ana.k'')) example_db [SelectUsersByUsername (lit ''ana'')]"
  using login_returns_token
      [of example_db "example_user (lit ''u1'') (lit ''ana'')"
        "example_request None
          \<lparr>login_username = Some (lit ''ana''), login_password = Some (lit ''secret1'')\<rparr>"
        "lit ''secret1''" example_env "lit ''u1.ana.k''"]
  by (simp add: example_defs)


text \<open>
  C2 as stated fails for a stored user whose username is the empty string. The schema
  accepts that username, so the signup stores the user; the login with the same username
  and password, which compares equal to the stored hash, is answered 400.
\<close>

theorem login_empty_username_counterexample:
  "signup example_env
     (example_request None
       (JObj [(lit ''username'', JStr []), (lit ''email'', JStr (lit ''a@b.c'')),
              (lit ''password'', JStr (lit ''secret1''))])) example_db
     = respond 201
         (Usuario_creado
            ((example_user (lit ''u2'') [])
               \<lparr>users_createdAt := Some 1000, users_updatedAt := Some 1000\<rparr>))
         example_db_nameless
         [InsertUser [] (lit ''a@b.c'') (36 # lit ''secret1'')]
   \<and> distinct (map users_username (users_rows example_db_nameless))
   \<and> (example_user (lit ''u2'') [])
        \<lparr>users_createdAt := Some 1000, users_updatedAt := Some 1000\<rparr>
       \<in> set (users_rows example_db_nameless)
   \<and> bcrypt_compare example_env (lit ''secret1'') (36 # lit ''secret1'')
   \<and> login example_env
        (example_request None
          \<lparr>login_username = Some [], login_password = Some (lit ''secret1'')\<rparr>)
        example_db_nameless
     = respond 400 (error Usuario_y_contrasena_requeridos) example_db_nameless []"
  by (simp add: example_defs login_def falsy_def signup_def insertUserSchema_safeParse_def
      insert_users_def new_user_row_def Let_def)






text \<open>
  C6. When \<open>GET /api/animals\<close> answers 200, the token of the request verified and the
  payload sent is the list of the stored animals whose \<open>user_id\<close> is the id in the token,
  in stored order; and a request whose token verifies to a non-empty id gets that 200
  answer whenever the query does not throw. The list holds exactly the requester's
  animals: every one of them and no other.
\<close>

theorem get_animals_only_own_rows:
  "(status (get_animals e req db) = 200 \<longrightarrow>
      (\<exists>t u. bearer_token req = Some t \<and> jwt_verify e t (JWT_SECRET e) = Some u
         \<and> sent (get_animals e req db)
             = rows (filter (\<lambda>r. animals_userId r = payload_id u) (animals_rows db))))
   \<and> (\<forall>t u. bearer_token req = Some t \<and> t \<noteq> []
         \<and> jwt_verify e t (JWT_SECRET e) = Some u \<and> payload_id u \<noteq> []
         \<and> driver_fault e (SelectAnimalsByUserId (payload_id u)) = None
       \<longrightarrow> get_animals e req db
             = respond 200
                 (rows (filter (\<lambda>r. animals_userId r = payload_id u) (animals_rows db)))
                 db [SelectAnimalsByUserId (payload_id u)]
         \<and> (\<forall>r. r \<in> set (filter (\<lambda>r. animals_userId r = payload_id u) (animals_rows db))
                \<longleftrightarrow> r \<in> set (animals_rows db) \<and> animals_userId r = payload_id u))"
  by (auto simp: get_animals_def authenticateToken_def get_animals_body_def respond_def
      select_animals_def split: option.splits if_splits sum.splits)


text \<open>On the example data: \<open>ana\<close> gets her two animals and not the third.\<close>

theorem get_animals_only_own_rows_witness:
  "bearer_token (example_request (Some (lit ''Bearer u1.ana.k'')) JNull)
     = Some (lit ''u1.ana.k'')
   \<and> jwt_verify example_env (lit ''u1.ana.k'') (JWT_SECRET example_env)
       = Some \<lparr>payload_id = lit ''u1'', payload_username = lit ''ana''\<rparr>
   \<and> get_animals example_env (example_request (Some (lit ''Bearer u1.ana.k'')) JNull)
        example_db
     = respond 200
         (rows [example_animal 1 (lit ''u1'') (lit ''A-1''),
                example_animal 3 (lit ''u1'') (lit ''A-2'')])
         example_db [SelectAnimalsByUserId (lit ''u1'')]"
  using get_animals_only_own_rows
      [of example_env "example_request (Some (lit ''Bearer u1.ana.k'')) JNull" example_db]
  by (simp add: example_defs bearer_token_def)

text \<open>
  C8. When \<open>POST /api/animals\<close> answers 201, the inserted row, which is also the one sent
  back, has as \<open>user_id\<close> the id in the verified token; and two requests with the same
  \<open>Authorization\<close> header whose bodies agree on every key but \<open>userId\<close> have the same
  outcome: the same response, the same inserted row, the same stored state.
\<close>

theorem post_animals_owner_from_token:
  "(status (post_animals e req db) = 201 \<longrightarrow>
      (\<exists>t u a r. bearer_token req = Some t \<and> jwt_verify e t (JWT_SECRET e) = Some u
         \<and> insertAnimalSchema_safeParse (body req) = Inr a
         \<and> sent (post_animals e req db) = Animal_creado_exitosamente r
         \<and> animals_userId r = payload_id u
         \<and> animals_rows (store (post_animals e req db)) = animals_rows db @ [r]))
   \<and> (\<forall>req' kvs kvs'. authorization req' = authorization req
         \<and> body req = JObj kvs \<and> body req' = JObj kvs'
         \<and> (\<forall>k. k \<noteq> lit ''userId'' \<longrightarrow> map_of kvs k = map_of kvs' k)
       \<longrightarrow> post_animals e req' db = post_animals e req db)"
proof (rule conjI)
  show "status (post_animals e req db) = 201 \<longrightarrow>
      (\<exists>t u a r. bearer_token req = Some t \<and> jwt_verify e t (JWT_SECRET e) = Some u
         \<and> insertAnimalSchema_safeParse (body req) = Inr a
         \<and> sent (post_animals e req db) = Animal_creado_exitosamente r
         \<and> animals_userId r = payload_id u
         \<and> animals_rows (store (post_animals e req db)) = animals_rows db @ [r])"
    by (auto simp: post_animals_def authenticateToken_def post_animals_body_def respond_def
        insert_animals_def new_animal_row_def Let_def
        split: option.splits if_splits sum.splits)
next
  show "\<forall>req' kvs kvs'. authorization req' = authorization req
         \<and> body req = JObj kvs \<and> body req' = JObj kvs'
         \<and> (\<forall>k. k \<noteq> lit ''userId'' \<longrightarrow> map_of kvs k = map_of kvs' k)
       \<longrightarrow> post_animals e req' db = post_animals e req db"
  proof (intro allI impI)
    fix req' :: "json request" and kvs kvs'
    assume a: "authorization req' = authorization req
         \<and> body req = JObj kvs \<and> body req' = JObj kvs'
         \<and> (\<forall>k. k \<noteq> lit ''userId'' \<longrightarrow> map_of kvs k = map_of kvs' k)"
    then have p: "insertAnimalSchema_safeParse (body req')
        = insertAnimalSchema_safeParse (body req)"
      using safeParse_animal_ignores_userId [of kvs kvs'] by simp
    have b: "bearer_token req' = bearer_token req"
      using a by (simp add: bearer_token_def)
    have "post_animals_body e (req'\<lparr>user := Some u\<rparr>) db
        = post_animals_body e (req\<lparr>user := Some u\<rparr>) db" for u
      using p by (simp add: post_animals_body_def)
    then show "post_animals e req' db = post_animals e req db"
      using b by (simp add: post_animals_def authenticateToken_def split: option.splits)
  qed
qed


text \<open>On the example data: \<open>ana\<close> posts an animal with a \<open>userId\<close> of another user in the body.\<close>

theorem post_animals_owner_from_token_witness:
  "post_animals example_env
      (example_request (Some (lit ''Bearer u1.ana.k''))
        (JObj [(lit ''codigoUnico'', JStr (lit ''A-3'')), (lit ''sexo'', JStr (lit ''M'')),
               (lit ''userId'', JStr (lit ''u3''))])) example_db
     = respond 201
         (Animal_creado_exitosamente
            \<lparr>animals_id = 4, animals_userId = lit ''u1'', animals_codigoUnico = lit ''A-3'',
             animals_nombre = None, animals_raza = None, animals_sexo = lit ''M'',
             animals_fechaNacimiento = None, animals_createdAt = Some 1000,
             animals_updatedAt = Some 1000\<rparr>)
         (example_db\<lparr>animals_id_seq := 5, animals_rows := animals_rows example_db @
            [\<lparr>animals_id = 4, animals_userId = lit ''u1'', animals_codigoUnico = lit ''A-3'',
              animals_nombre = None, animals_raza = None, animals_sexo = lit ''M'',
              animals_fechaNacimiento = None, animals_createdAt = Some 1000,
              animals_updatedAt = Some 1000\<rparr>]\<rparr>)
         [InsertAnimal \<lparr>codigoUnico = lit ''A-3'', nombre = None, raza = None,
            sexo = lit ''M'', fechaNacimiento = None\<rparr> (lit ''u1'')]
   \<and> post_animals example_env
        (example_request (Some (lit ''Bearer u1.ana.k''))
          (JObj [(lit ''codigoUnico'', JStr (lit ''A-3'')), (lit ''sexo'', JStr (lit ''M''))]))
        example_db
     = post_animals example_env
        (example_request (Some (lit ''Bearer u1.ana.k''))
          (JObj [(lit ''codigoUnico'', JStr (lit ''A-3'')), (lit ''sexo'', JStr (lit ''M'')),
                 (lit ''userId'', JStr (lit ''u3''))])) example_db"
  using post_animals_owner_from_token
      [of example_env
        "example_request (Some (lit ''Bearer u1.ana.k''))
          (JObj [(lit ''codigoUnico'', JStr (lit ''A-3'')), (lit ''sexo'', JStr (lit ''M'')),
                 (lit ''userId'', JStr (lit ''u3''))])" example_db]
  by (simp add: example_defs post_animals_def authenticateToken_def bearer_token_def
      post_animals_body_def insertAnimalSchema_safeParse_def insert_animals_def
      new_animal_row_def Let_def)

text \<open>
  C7, amended. The schema declares nine dependent tables. Each has a \<open>user_id\<close> column
  referencing \<open>users.id\<close> with \<open>onDelete: cascade\<close>; each except \<open>lotes\<close> has an \<open>animal_id\<close>
  column referencing \<open>animals.id\<close> with \<open>onDelete: cascade\<close>; \<open>lotes\<close> has no \<open>animal_id\<close>
  column. So deleting an animal deletes it and every row of the eight tables that
  references it, and deleting a user deletes it and every row of the nine tables that
  references it.
\<close>

theorem dependent_tables_cascade:
  "length dependent_tables = 9
   \<and> list_all (\<lambda>t. cascades_to t ''user_id'' ''users'' ''id'') dependent_tables
   \<and> list_all (\<lambda>t. table_name t \<noteq> ''lotes'' \<longrightarrow> cascades_to t ''animal_id'' ''animals'' ''id'')
       dependent_tables
   \<and> \<not> has_column lotes ''animal_id''
   \<and> (\<forall>n st a g. g \<in> set (st ''animals'') \<and> cell g ''id'' = IntV a \<longrightarrow>
        (\<exists>st'. delete_cascade (Suc n) schema ''animals'' (\<lambda>r. cell r ''id'' = IntV a) st = Some st'
           \<and> (\<forall>r \<in> set (st' ''animals''). cell r ''id'' \<noteq> IntV a)
           \<and> (\<forall>t \<in> set dependent_tables. table_name t \<noteq> ''lotes'' \<longrightarrow>
                (\<forall>r \<in> set (st' (table_name t)). cell r ''animal_id'' \<noteq> IntV a))))
   \<and> (\<forall>n st u g. g \<in> set (st ''users'') \<and> cell g ''id'' = TextV u \<longrightarrow>
        (\<exists>st'. delete_cascade (Suc (Suc n)) schema ''users'' (\<lambda>r. cell r ''id'' = TextV u) st
                 = Some st'
           \<and> (\<forall>r \<in> set (st' ''users''). cell r ''id'' \<noteq> TextV u)
           \<and> (\<forall>t \<in> set dependent_tables.
                (\<forall>r \<in> set (st' (table_name t)). cell r ''user_id'' \<noteq> TextV u))))"
proof (intro conjI allI impI)
  show "length dependent_tables = 9" by (simp add: dependent_tables_def)
  show "list_all (\<lambda>t. cascades_to t ''user_id'' ''users'' ''id'') dependent_tables"
    by (simp add: cascades_to_def schema_defs)
  show "list_all (\<lambda>t. table_name t \<noteq> ''lotes'' \<longrightarrow> cascades_to t ''animal_id'' ''animals'' ''id'')
       dependent_tables"
    by (simp add: cascades_to_def schema_defs)
  show "\<not> has_column lotes ''animal_id''"
    by (simp add: has_column_def schema_defs)
next
  fix n st a g
  assume g: "g \<in> set (st ''animals'') \<and> cell g ''id'' = IntV a"
  let ?P = "\<lambda>r. cell r ''id'' = IntV a"
  obtain st' where d: "delete_cascade (Suc n) schema ''animals'' ?P st = Some st'"
    using delete_animal_total [of n ?P st] by auto
  have 1: "\<forall>r \<in> set (st' ''animals''). cell r ''id'' \<noteq> IntV a"
    using delete_cascade_target [OF d] by blast
  have 2: "\<forall>t \<in> set dependent_tables. table_name t \<noteq> ''lotes'' \<longrightarrow>
                (\<forall>r \<in> set (st' (table_name t)). cell r ''animal_id'' \<noteq> IntV a)"
  proof (intro ballI impI)
    fix t r
    assume t: "t \<in> set dependent_tables" "table_name t \<noteq> ''lotes''"
      and r: "r \<in> set (st' (table_name t))"
    have "(table_name t, ''animal_id'', ''id'') \<in> set (fk_children schema ''animals'')"
      using animal_children t by (simp add: list_all_iff)
    from delete_cascade_referencing [OF d this, of g r] g r
    show "cell r ''animal_id'' \<noteq> IntV a" by simp
  qed
  show "\<exists>st'. delete_cascade (Suc n) schema ''animals'' ?P st = Some st'
           \<and> (\<forall>r \<in> set (st' ''animals''). cell r ''id'' \<noteq> IntV a)
           \<and> (\<forall>t \<in> set dependent_tables. table_name t \<noteq> ''lotes'' \<longrightarrow>
                (\<forall>r \<in> set (st' (table_name t)). cell r ''animal_id'' \<noteq> IntV a))"
    using d 1 2 by blast
next
  fix n st u g
  assume g: "g \<in> set (st ''users'') \<and> cell g ''id'' = TextV u"
  let ?P = "\<lambda>r. cell r ''id'' = TextV u"
  obtain st' where d: "delete_cascade (Suc (Suc n)) schema ''users'' ?P st = Some st'"
    using delete_user_total [of n ?P st] by auto
  have 1: "\<forall>r \<in> set (st' ''users''). cell r ''id'' \<noteq> TextV u"
    using delete_cascade_target [OF d] by blast
  have 2: "\<forall>t \<in> set dependent_tables.
                (\<forall>r \<in> set (st' (table_name t)). cell r ''user_id'' \<noteq> TextV u)"
  proof (intro ballI)
    fix t r
    assume t: "t \<in> set dependent_tables"
      and r: "r \<in> set (st' (table_name t))"
    have "(table_name t, ''user_id'', ''id'') \<in> set (fk_children schema ''users'')"
      using user_children t by (simp add: list_all_iff)
    from delete_cascade_referencing [OF d this, of g r] g r
    show "cell r ''user_id'' \<noteq> TextV u" by simp
  qed
  show "\<exists>st'. delete_cascade (Suc (Suc n)) schema ''users'' ?P st = Some st'
           \<and> (\<forall>r \<in> set (st' ''users''). cell r ''id'' \<noteq> TextV u)
           \<and> (\<forall>t \<in> set dependent_tables.
                (\<forall>r \<in> set (st' (table_name t)). cell r ''user_id'' \<noteq> TextV u))"
    using d 1 2 by blast
qed


text \<open>On the example tables: deleting animal 1 removes it and the weight record that references it, and leaves animal 2 and its record.\<close>

theorem dependent_tables_cascade_witness:
  "[(''id'', IntV 1)] \<in> set (example_tables ''animals'')
   \<and> cell [(''id'', IntV 1)] ''id'' = IntV 1
   \<and> weightRecords \<in> set dependent_tables
   \<and> table_name weightRecords \<noteq> ''lotes''
   \<and> (\<exists>st'. delete_cascade (Suc 0) schema ''animals'' (\<lambda>r. cell r ''id'' = IntV 1)
               example_tables = Some st'
          \<and> (\<forall>r \<in> set (st' ''animals''). cell r ''id'' \<noteq> IntV 1)
          \<and> (\<forall>r \<in> set (st' (table_name weightRecords)). cell r ''animal_id'' \<noteq> IntV 1))
   \<and> map_option (\<lambda>st'. (st' ''animals'', st' ''weight_records''))
        (delete_cascade (Suc 0) schema ''animals'' (\<lambda>r. cell r ''id'' = IntV 1)
           example_tables)
     = Some ([[(''id'', IntV 2)]], [[(''id'', IntV 2), (''animal_id'', IntV 2)]])"
proof -
  have g: "[(''id'', IntV 1)] \<in> set (example_tables ''animals'')
      \<and> cell [(''id'', IntV 1)] ''id'' = IntV 1"
    by (simp add: example_tables_def cell_def)
  have w: "weightRecords \<in> set dependent_tables" "table_name weightRecords \<noteq> ''lotes''"
    by (simp_all add: dependent_tables_def table_names)
  from dependent_tables_cascade
  have "\<forall>n st a g. g \<in> set (st ''animals'') \<and> cell g ''id'' = IntV a \<longrightarrow>
        (\<exists>st'. delete_cascade (Suc n) schema ''animals'' (\<lambda>r. cell r ''id'' = IntV a) st = Some st'
           \<and> (\<forall>r \<in> set (st' ''animals''). cell r ''id'' \<noteq> IntV a)
           \<and> (\<forall>t \<in> set dependent_tables. table_name t \<noteq> ''lotes'' \<longrightarrow>
                (\<forall>r \<in> set (st' (table_name t)). cell r ''animal_id'' \<noteq> IntV a)))"
    by (elim conjE)
  with g obtain st' where
    d: "delete_cascade (Suc 0) schema ''animals'' (\<lambda>r. cell r ''id'' = IntV 1) example_tables
          = Some st'"
    and a: "\<forall>r \<in> set (st' ''animals''). cell r ''id'' \<noteq> IntV 1"
    and t: "\<forall>t \<in> set dependent_tables. table_name t \<noteq> ''lotes'' \<longrightarrow>
                (\<forall>r \<in> set (st' (table_name t)). cell r ''animal_id'' \<noteq> IntV 1)"
    by blast
  from t w have
    "\<forall>r \<in> set (st' (table_name weightRecords)). cell r ''animal_id'' \<noteq> IntV 1"
    by blast
  with d a have e: "\<exists>st'. delete_cascade (Suc 0) schema ''animals'' (\<lambda>r. cell r ''id'' = IntV 1)
               example_tables = Some st'
          \<and> (\<forall>r \<in> set (st' ''animals''). cell r ''id'' \<noteq> IntV 1)
          \<and> (\<forall>r \<in> set (st' (table_name weightRecords)). cell r ''animal_id'' \<noteq> IntV 1)"
    by blast
  have v: "map_option (\<lambda>st'. (st' ''animals'', st' ''weight_records''))
        (delete_cascade (Suc 0) schema ''animals'' (\<lambda>r. cell r ''id'' = IntV 1)
           example_tables)
     = Some ([[(''id'', IntV 2)]], [[(''id'', IntV 2), (''animal_id'', IntV 2)]])"
    by (simp add: delete_cascade.simps fk_children_animals fk_children_leaves
        example_tables_def cell_def refers_to_def)
  from g w e v show ?thesis by blast
qed

text \<open>
  C7 as stated fails at \<open>lotes\<close>: it is one of the nine tables and has no column
  \<open>animal_id\<close> referencing \<open>animals.id\<close>.
\<close>

theorem lotes_has_no_animal_id_counterexample:
  "lotes \<in> set dependent_tables \<and> \<not> cascades_to lotes ''animal_id'' ''animals'' ''id''"
  by (simp add: dependent_tables_def cascades_to_def lotes_def serial_id_def userId_def
      createdAt_def updatedAt_def column_def notNull_def primaryKey_def default_sql_def defaultNow_def
      references_def)

text \<open>
  C10. \<open>filteredFincas\<close> is the list of the fincas whose lowercased name or lowercased
  location has the lowercased search term as a contiguous substring, in the order of
  \<open>fincas\<close>; it is a subsequence of \<open>fincas\<close>; and for the empty search term (which
  \<open>toLowerCase\<close> leaves empty) it is the whole list.
\<close>

theorem filteredFincas_spec:
  "filteredFincas lc fincas term
     = filter (\<lambda>f. sublist (lc term) (lc (name f)) \<or> sublist (lc term) (lc (location f)))
         fincas
   \<and> subseq (filteredFincas lc fincas term) fincas
   \<and> (lc [] = [] \<longrightarrow> filteredFincas lc fincas [] = fincas)"
  by (simp add: filteredFincas_def includes_str_sublist)


text \<open>On the example fincas: the empty search term and the term \<open>PAL\<close>.\<close>

theorem filteredFincas_spec_witness:
  "ascii_toLowerCase [] = []
   \<and> filteredFincas ascii_toLowerCase example_fincas [] = example_fincas
   \<and> filteredFincas ascii_toLowerCase example_fincas (lit ''PAL'')
     = [\<lparr>finca_id = 1, user_id = 7, name = lit ''La Palma'', location = lit ''Cartago''\<rparr>]"
  using filteredFincas_spec [of ascii_toLowerCase example_fincas "[]"]
  by (simp add: ascii_toLowerCase_def filteredFincas_def example_fincas_def lit_def)

end
